theory Spec2Isabelle
  imports Main "HOL-Library.Sublist" "HOL-Library.AList" "HOL-Library.Char_ord"
    "HOL-Library.List_Lexorder" "HOL-Library.Word"
begin

section \<open>Data model of main.go\<close>

text \<open>
  A Go \<open>interface{}\<close> value as the code inspects it: the nil interface, the dynamic types
  named in the type switches of \<open>flattenYAML\<close>, \<open>inferType\<close> and \<open>markdownTable\<close>, and
  \<open>VOther\<close> (tagged with the Go type name) for every other dynamic type.  A \<open>float64\<close> is
  carried as its 64 bits; no function of the program computes with it.  A Go map is an
  association list whose order stands for the order in which \<open>range\<close> visits the keys.
\<close>

datatype val =
    VNil
  | VString string
  | VBool bool
  | VInt int
  | VInt64 int
  | VFloat64 "64 word"
  | VSlice "val list"
  | VMap "(string \<times> val) list"
  | VOther string

datatype error =
    MetadataErrors
  | NoParametersSection
  | NotExist string
  | IOError string
  | ParseError string
  | Panic string

record Parameter =
  Name :: string
  Description :: string
  Value :: val
  Type :: string
  Modifiers :: "string list"
  Section :: string
  Validate :: bool
  Readme :: bool
  Schema :: bool

definition NewParameter :: "string \<Rightarrow> Parameter" where
  "NewParameter name =
     \<lparr>Name = name, Description = [], Value = VNil, Type = [], Modifiers = [],
      Section = [], Validate = True, Readme = True, Schema = True\<rparr>"

definition HasModifier :: "Parameter \<Rightarrow> string \<Rightarrow> bool" where
  "HasModifier p m = list_ex (\<lambda>mm. mm = m) (Modifiers p)"

definition SetExtra :: "Parameter \<Rightarrow> bool \<Rightarrow> Parameter" where
  "SetExtra p b = (if b then p\<lparr>Validate := False, Readme := True\<rparr> else p)"

definition Extra :: "Parameter \<Rightarrow> bool" where
  "Extra p = (\<not> Validate p \<and> Readme p)"

definition SetSkip :: "Parameter \<Rightarrow> bool \<Rightarrow> Parameter" where
  "SetSkip p b =
     (if b then p\<lparr>Validate := False, Readme := False\<rparr>
      else p\<lparr>Validate := True, Readme := True\<rparr>)"

definition Skip :: "Parameter \<Rightarrow> bool" where
  "Skip p = (\<not> Validate p \<and> \<not> Readme p)"

text \<open>The operations on the two role flags, as a program of calls on one parameter.\<close>

datatype role_op = OpSetSkip bool | OpSetExtra bool

fun role_step :: "Parameter \<Rightarrow> role_op \<Rightarrow> Parameter" where
  "role_step p (OpSetSkip b) = SetSkip p b"
| "role_step p (OpSetExtra b) = SetExtra p b"

definition role_flags :: "Parameter \<Rightarrow> bool \<times> bool" where
  "role_flags p = (Validate p, Readme p)"

record Config =
  Comments_Format :: string
  Tags_Param :: string
  Tags_Section :: string
  Tags_DescriptionStart :: string
  Tags_DescriptionEnd :: string
  Tags_Skip :: string
  Tags_Extra :: string
  Regexp_ParamsSectionTitle :: string
  Modifiers_Array :: string
  Modifiers_Object :: string
  Modifiers_String :: string
  Modifiers_Nullable :: string
  Modifiers_Default :: string

definition defaultConfig :: Config where
  "defaultConfig =
     \<lparr>Comments_Format = ''##'',
      Tags_Param = ''@param'',
      Tags_Section = ''@section'',
      Tags_DescriptionStart = ''@descriptionStart'',
      Tags_DescriptionEnd = ''@descriptionEnd'',
      Tags_Skip = ''@skip'',
      Tags_Extra = ''@extra'',
      Regexp_ParamsSectionTitle = ''Parameters'',
      Modifiers_Array = ''array'',
      Modifiers_Object = ''object'',
      Modifiers_String = ''string'',
      Modifiers_Nullable = ''nullable'',
      Modifiers_Default = ''default''\<rparr>"

section \<open>Type inference\<close>

fun inferType :: "val \<Rightarrow> string" where
  "inferType VNil = ''nil''"
| "inferType (VString s) = ''string''"
| "inferType (VBool b) = ''boolean''"
| "inferType (VInt i) = ''number''"
| "inferType (VInt64 i) = ''number''"
| "inferType (VFloat64 f) = ''number''"
| "inferType (VSlice xs) = ''array''"
| "inferType (VMap kvs) = ''object''"
| "inferType (VOther t) = ''unknown''"

section \<open>The modifier engine\<close>

text \<open>
  \<open>strings.TrimSpace\<close> follows the Unicode tables of the Go standard library; it is a
  parameter \<open>trimSpace\<close> of the functions that call it.
\<close>

definition nullableLast :: "Parameter \<Rightarrow> Config \<Rightarrow> bool" where
  "nullableLast p cfg =
     (HasModifier p (Modifiers_Nullable cfg) \<and> last (Modifiers p) = Modifiers_Nullable cfg)"

definition applyModifier ::
  "(string \<Rightarrow> string) \<Rightarrow> Config \<Rightarrow> bool \<Rightarrow> Parameter \<Rightarrow> string \<Rightarrow> Parameter" where
  "applyModifier trimSpace cfg nl p m =
     (if m = Modifiers_Array cfg then
        (if \<not> nl then p\<lparr>Type := ''array'', Value := VSlice []\<rparr> else p\<lparr>Type := ''array''\<rparr>)
      else if m = Modifiers_Object cfg then
        (if \<not> nl then p\<lparr>Type := ''object'', Value := VMap []\<rparr> else p\<lparr>Type := ''object''\<rparr>)
      else if m = Modifiers_String cfg then
        (if \<not> nl then p\<lparr>Type := ''string'', Value := VString []\<rparr> else p\<lparr>Type := ''string''\<rparr>)
      else if m = Modifiers_Nullable cfg then
        (if Value p = VNil then p\<lparr>Value := VString ''nil''\<rparr> else p)
      else if prefix (Modifiers_Default cfg @ '':'') m then
        p\<lparr>Value := VString (trimSpace (drop (length (Modifiers_Default cfg @ '':'')) m))\<rparr>
      else p)"

definition applyModifiers ::
  "(string \<Rightarrow> string) \<Rightarrow> Parameter \<Rightarrow> Config \<Rightarrow> Parameter" where
  "applyModifiers trimSpace p cfg =
     (if Modifiers p = [] then p
      else foldl (applyModifier trimSpace cfg (nullableLast p cfg)) p (Modifiers p))"

section \<open>String helpers of the Go standard library used by the program\<close>

text \<open>\<open>strings.Index\<close> for a one-byte separator; \<open>None\<close> is Go's \<open>-1\<close>.\<close>

fun strIndex :: "char \<Rightarrow> string \<Rightarrow> nat option" where
  "strIndex c [] = None"
| "strIndex c (x # xs) = (if x = c then Some 0 else map_option Suc (strIndex c xs))"

text \<open>\<open>strings.Split\<close> for a one-byte separator: always at least one piece.\<close>

fun splitOn :: "char \<Rightarrow> string \<Rightarrow> string list" where
  "splitOn c [] = [[]]"
| "splitOn c (x # xs) =
     (if x = c then [] # splitOn c xs
      else (case splitOn c xs of [] \<Rightarrow> [[x]] | w # ws \<Rightarrow> (x # w) # ws))"

fun joinWith :: "string \<Rightarrow> string list \<Rightarrow> string" where
  "joinWith sep [] = []"
| "joinWith sep [x] = x"
| "joinWith sep (x # y # ys) = x @ sep @ joinWith sep (y # ys)"

definition trimRightSet :: "char list \<Rightarrow> string \<Rightarrow> string" where
  "trimRightSet cutset s = rev (dropWhile (\<lambda>c. c \<in> set cutset) (rev s))"

definition trimSet :: "char list \<Rightarrow> string \<Rightarrow> string" where
  "trimSet cutset s = trimRightSet cutset (dropWhile (\<lambda>c. c \<in> set cutset) s)"

definition digit :: "nat \<Rightarrow> char" where
  "digit d =
     (if d = 0 then CHR ''0'' else if d = 1 then CHR ''1'' else if d = 2 then CHR ''2''
      else if d = 3 then CHR ''3'' else if d = 4 then CHR ''4'' else if d = 5 then CHR ''5''
      else if d = 6 then CHR ''6'' else if d = 7 then CHR ''7'' else if d = 8 then CHR ''8''
      else CHR ''9'')"

text \<open>The \<open>%d\<close> verb of \<open>fmt.Sprintf\<close> on a slice index (never negative).\<close>

fun decimal :: "nat \<Rightarrow> string" where
  "decimal n = (if n < 10 then [digit n] else decimal (n div 10) @ [digit (n mod 10)])"

declare decimal.simps [simp del]

definition getArrayPrefix :: "string \<Rightarrow> string" where
  "getArrayPrefix path =
     (case strIndex CHR ''['' path of None \<Rightarrow> path | Some idx \<Rightarrow> take idx path)"

definition sanitizeProperty :: "string \<Rightarrow> string" where
  "sanitizeProperty path = (if CHR ''['' \<in> set path then getArrayPrefix path else path)"

section \<open>Flattening the values tree\<close>

text \<open>
  The output map \<open>out\<close> is an association list with distinct keys; \<open>out[prefix] = v\<close> is
  \<open>AList.update\<close>.
\<close>

fun flattenYAML :: "string \<Rightarrow> val \<Rightarrow> (string \<times> val) list \<Rightarrow> (string \<times> val) list"
and flattenMap ::
  "string \<Rightarrow> (string \<times> val) list \<Rightarrow> (string \<times> val) list \<Rightarrow> (string \<times> val) list"
and flattenSlice ::
  "string \<Rightarrow> nat \<Rightarrow> val list \<Rightarrow> (string \<times> val) list \<Rightarrow> (string \<times> val) list"
where
  "flattenYAML pre (VMap kvs) out =
     (if kvs = [] then (if pre \<noteq> [] then AList.update pre (VMap kvs) out else out)
      else flattenMap pre kvs out)"
| "flattenYAML pre (VSlice vs) out =
     (if vs = [] then (if pre \<noteq> [] then AList.update pre (VSlice vs) out else out)
      else flattenSlice pre 0 vs out)"
| "flattenYAML pre v out = AList.update pre v out"
| "flattenMap pre [] out = out"
| "flattenMap pre ((k, v) # rest) out =
     flattenMap pre rest (flattenYAML (if pre \<noteq> [] then pre @ ''.'' @ k else k) v out)"
| "flattenSlice pre i [] out = out"
| "flattenSlice pre i (v # rest) out =
     flattenSlice pre (Suc i) rest (flattenYAML (pre @ ''['' @ decimal i @ '']'') v out)"

section \<open>The world: files and standard output\<close>

text \<open>
  \<open>files\<close> gives what reading a path returns, \<open>writeErr\<close> the error a write to a path
  returns (if any), \<open>stdout\<close> the lines printed so far (one element for each call of
  \<open>fmt.Println\<close> or \<open>fmt.Printf\<close>, without its final newline).
\<close>

record world =
  files :: "string \<Rightarrow> error + string"
  writeErr :: "string \<Rightarrow> error option"
  stdout :: "string list"

definition readFile :: "string \<Rightarrow> world \<Rightarrow> error + string" where
  "readFile path w = files w path"

definition writeFile :: "string \<Rightarrow> string \<Rightarrow> world \<Rightarrow> error option \<times> world" where
  "writeFile path data w =
     (case writeErr w path of
        Some e \<Rightarrow> (Some e, w)
      | None \<Rightarrow> (None, w\<lparr>files := (files w)(path := Inr data)\<rparr>))"

definition println :: "string \<Rightarrow> world \<Rightarrow> world" where
  "println s w = w\<lparr>stdout := stdout w @ [s]\<rparr>"

fun isNotExist :: "error \<Rightarrow> bool" where
  "isNotExist (NotExist p) = True"
| "isNotExist e = False"

section \<open>Sections, metadata, and the libraries the program calls\<close>

text \<open>
  Parameters are shared by pointer between the global list and the sections: a \<open>heap\<close>
  holds the parameter records, and the lists hold addresses (indices into the heap).
\<close>

type_synonym addr = nat
type_synonym heap = "Parameter list"

record Section =
  SecName :: string
  DescriptionLines :: "string list"
  SecParameters :: "addr list"

record Metadata =
  Sections :: "Section list"
  Parameters :: "addr list"

datatype schema =
    SObject "(string \<times> schema) list"
  | SString string
  | SBool bool
  | SValue val

text \<open>
  What the seven regular expressions of \<open>parseMetadataComments\<close> give on one line:
  for each, \<open>None\<close> (or \<open>False\<close>) when it does not match, and the submatches the code
  reads when it does.
\<close>

record line_matches =
  regSection :: "string option"
  regDescStart :: "string option"
  regDescEnd :: bool
  regDescContent :: "string option"
  regParam :: "(string \<times> string \<times> string) option"
  regSkip :: "string option"
  regExtra :: "(string \<times> string \<times> string) option"

text \<open>
  The packages outside the repository: \<open>yaml.Unmarshal\<close>, \<open>json.Unmarshal\<close> into a
  \<open>Config\<close>, \<open>json.Marshal\<close>, \<open>json.MarshalIndent\<close>, \<open>strings.TrimSpace\<close>, the regular
  expressions of the directive parser applied to a line, and the compiled heading
  expression of \<open>insertReadmeTable\<close> (\<open>None\<close> when \<open>regexp.MustCompile\<close> panics; the
  matcher returns submatch 1).
\<close>

record libs =
  yamlUnmarshal :: "string \<Rightarrow> error + val"
  jsonUnmarshal :: "string \<Rightarrow> Config \<Rightarrow> error + Config"
  jsonMarshal :: "val \<Rightarrow> string"
  jsonMarshalIndent :: "(string \<times> schema) list \<Rightarrow> string"
  trimSpace :: "string \<Rightarrow> string"
  lineMatches :: "Config \<Rightarrow> string \<Rightarrow> line_matches"
  reStart :: "string \<Rightarrow> (string \<Rightarrow> string option) option"

definition loadConfig :: "libs \<Rightarrow> string \<Rightarrow> world \<Rightarrow> error + Config" where
  "loadConfig L path w =
     (if path = [] then Inr defaultConfig
      else case readFile path w of
             Inl e \<Rightarrow> (if isNotExist e then Inr defaultConfig else Inl e)
           | Inr data \<Rightarrow> jsonUnmarshal L data defaultConfig)"

section \<open>createValuesObject\<close>

definition valueParameter :: "string \<times> val \<Rightarrow> Parameter" where
  "valueParameter e = (NewParameter (fst e))\<lparr>Value := snd e, Type := inferType (snd e)\<rparr>"

text \<open>
  The part of \<open>createValuesObject\<close> after the YAML tree is decoded: flatten, build one
  parameter for each entry of the map, sort by name (byte-wise, as Go compares strings).
\<close>

definition valuesOfTree :: "val \<Rightarrow> Parameter list" where
  "valuesOfTree node = sort_key Name (map valueParameter (flattenYAML [] node []))"

definition createValuesObject :: "libs \<Rightarrow> string \<Rightarrow> world \<Rightarrow> error + Parameter list" where
  "createValuesObject L valuesPath w =
     (case readFile valuesPath w of
        Inl e \<Rightarrow> Inl e
      | Inr raw \<Rightarrow>
          (case yamlUnmarshal L raw of
             Inl e \<Rightarrow> Inl e
           | Inr node \<Rightarrow> Inr (valuesOfTree node)))"

section \<open>parseMetadataComments\<close>

text \<open>
  The state of the line loop: the metadata built so far, \<open>current\<close> (the index in
  \<open>Sections\<close> of the section the pointer \<open>current\<close> refers to, \<open>None\<close> for nil), the
  description mode, and the heap of the parameters allocated so far.
\<close>

record parse_state =
  meta :: Metadata
  current :: "nat option"
  descriptionMode :: bool
  pheap :: heap

definition addDescriptionLine :: "string \<Rightarrow> parse_state \<Rightarrow> parse_state" where
  "addDescriptionLine txt st =
     (case current st of
        None \<Rightarrow> st
      | Some i \<Rightarrow>
          (let sec = Sections (meta st) ! i;
               sec' = sec\<lparr>DescriptionLines := DescriptionLines sec @ [txt]\<rparr>
           in st\<lparr>meta := (meta st)\<lparr>Sections := (Sections (meta st))[i := sec']\<rparr>\<rparr>))"

text \<open>
  The common tail of the three parameter directives: set the section name and append to
  the current section when there is one, then \<open>m.AddParameter(p)\<close>.
\<close>

definition declareParameter :: "Parameter \<Rightarrow> parse_state \<Rightarrow> parse_state" where
  "declareParameter p st =
     (let a = length (pheap st) in
      case current st of
        None \<Rightarrow>
          st\<lparr>pheap := pheap st @ [p],
             meta := (meta st)\<lparr>Parameters := Parameters (meta st) @ [a]\<rparr>\<rparr>
      | Some i \<Rightarrow>
          (let sec = Sections (meta st) ! i;
               sec' = sec\<lparr>SecParameters := SecParameters sec @ [a]\<rparr>
           in st\<lparr>pheap := pheap st @ [p\<lparr>Section := SecName sec\<rparr>],
                meta := \<lparr>Sections = (Sections (meta st))[i := sec'],
                         Parameters = Parameters (meta st) @ [a]\<rparr>\<rparr>))"

definition parseModifiers :: "(string \<Rightarrow> string) \<Rightarrow> string \<Rightarrow> string list" where
  "parseModifiers trim sm2 =
     (let mods = trimSet ''[]'' sm2
      in if mods \<noteq> [] then map trim (splitOn CHR '','' mods) else [])"

definition parseLine :: "libs \<Rightarrow> Config \<Rightarrow> parse_state \<Rightarrow> string \<Rightarrow> parse_state" where
  "parseLine L cfg st line =
     (let trimmed = trimRightSet [CHR 0x0D, CHR 0x0A] line;
          lm = lineMatches L cfg trimmed
      in case regSection lm of
           Some title \<Rightarrow>
             st\<lparr>meta := (meta st)\<lparr>Sections := Sections (meta st) @
                    [\<lparr>SecName = trimSpace L title, DescriptionLines = [], SecParameters = []\<rparr>]\<rparr>,
                current := Some (length (Sections (meta st))),
                descriptionMode := False\<rparr>
         | None \<Rightarrow>
        (case regDescStart lm of
           Some first \<Rightarrow>
             (let st' = st\<lparr>descriptionMode := True\<rparr>
              in if first \<noteq> [] then addDescriptionLine first st' else st')
         | None \<Rightarrow>
        (if descriptionMode st \<and> regDescEnd lm then st\<lparr>descriptionMode := False\<rparr>
         else if descriptionMode st \<and> regDescContent lm \<noteq> None then
           addDescriptionLine (the (regDescContent lm)) st
         else
        (case regParam lm of
           Some (sm1, sm2, sm3) \<Rightarrow>
             declareParameter
               ((NewParameter sm1)\<lparr>Modifiers := parseModifiers (trimSpace L) sm2,
                                   Description := sm3\<rparr>) st
         | None \<Rightarrow>
        (case regSkip lm of
           Some name \<Rightarrow> declareParameter (SetSkip (NewParameter name) True) st
         | None \<Rightarrow>
        (case regExtra lm of
           Some (sm1, sm2, sm3) \<Rightarrow>
             declareParameter
               (SetExtra ((NewParameter sm1)\<lparr>Description := sm3, Value := VString []\<rparr>) True) st
         | None \<Rightarrow> st))))))"

definition parseMetadataComments ::
  "libs \<Rightarrow> string \<Rightarrow> Config \<Rightarrow> world \<Rightarrow> error + (Metadata \<times> heap)" where
  "parseMetadataComments L valuesPath cfg w =
     (case readFile valuesPath w of
        Inl e \<Rightarrow> Inl e
      | Inr content \<Rightarrow>
          (let st = foldl (parseLine L cfg)
                      \<lparr>meta = \<lparr>Sections = [], Parameters = []\<rparr>, current = None,
                       descriptionMode = False, pheap = []\<rparr>
                      (splitOn (CHR 0x0A) content)
           in Inr (meta st, pheap st)))"

section \<open>checkKeys\<close>

definition skipNames :: "Parameter list \<Rightarrow> string set" where
  "skipNames ms =
     foldl (\<lambda>names p. if Skip p \<or> length (Modifiers p) > 0
                       then insert (sanitizeProperty (Name p)) names else names) {} ms"

text \<open>The test of the helper \<open>isSkipped\<close> for one skip name \<open>sk\<close>.\<close>

definition isUnder :: "string \<Rightarrow> string \<Rightarrow> bool" where
  "isUnder name sk = (name = sk \<or> prefix (sk @ ''.'') name \<or> prefix (sk @ ''['') name)"

definition isSkipped :: "string set \<Rightarrow> string \<Rightarrow> bool" where
  "isSkipped names name = (\<exists>sk\<in>names. isUnder name sk)"

definition realKeys :: "Parameter list \<Rightarrow> Parameter list \<Rightarrow> string list" where
  "realKeys real ms =
     map Name (filter (\<lambda>p. \<not> isSkipped (skipNames ms) (Name p) \<and> \<not> Extra p) real)"

definition metaKeys :: "Parameter list \<Rightarrow> string list" where
  "metaKeys ms =
     map Name (filter (\<lambda>p. \<not> Extra p \<and> \<not> isSkipped (skipNames ms) (Name p)) ms)"

definition difference :: "string list \<Rightarrow> string list \<Rightarrow> string list" where
  "difference a b = filter (\<lambda>x. x \<notin> set b) a"

definition missing :: "Parameter list \<Rightarrow> Parameter list \<Rightarrow> string list" where
  "missing real ms = difference (realKeys real ms) (metaKeys ms)"

definition orphan :: "Parameter list \<Rightarrow> Parameter list \<Rightarrow> string list" where
  "orphan real ms = difference (metaKeys ms) (realKeys real ms)"

definition checkKeys :: "Parameter list \<Rightarrow> Parameter list \<Rightarrow> world \<Rightarrow> error option \<times> world" where
  "checkKeys real ms w =
     (if length (missing real ms) = 0 \<and> length (orphan real ms) = 0
      then (None, println ''INFO: Metadata is correct!'' w)
      else
        (let w1 = foldl (\<lambda>w k. println (''ERROR: Missing metadata for key: '' @ k) w)
                    w (missing real ms);
             w2 = foldl (\<lambda>w k. println (''ERROR: Metadata provided for non existing key: '' @ k) w)
                    w1 (orphan real ms)
         in (Some MetadataErrors, w2)))"

section \<open>combineMetadataAndValues\<close>

definition mergeValue :: "Parameter list \<Rightarrow> Parameter \<Rightarrow> Parameter" where
  "mergeValue vals p =
     (if Extra p then p
      else case find (\<lambda>src. Name src = Name p) vals of
             None \<Rightarrow> p
           | Some src \<Rightarrow>
               (if Value p = VNil then p\<lparr>Value := Value src\<rparr> else p)
                 \<lparr>Type := Type src, Schema := Schema src\<rparr>)"

text \<open>
  The second loop works on the function's own slice variable: \<open>meta = append(meta, &np)\<close>
  assigns to the parameter \<open>meta\<close> of \<open>combineMetadataAndValues\<close>, and the caller's
  slice keeps its length. \<open>addMissingSkip\<close> is one iteration, on the local slice and
  the heap.
\<close>

definition addMissingSkip :: "addr list \<times> heap \<Rightarrow> Parameter \<Rightarrow> addr list \<times> heap" where
  "addMissingSkip st src =
     (let ml = fst st; h = snd st
      in if list_ex (\<lambda>a. Name (h ! a) = Name src) ml then (ml, h)
         else (ml @ [length h], h @ [SetSkip src True]))"

text \<open>
  The function returns nothing in Go. The result here is the local slice \<open>meta\<close> as it is
  when the function returns (which no caller can see) and the heap (which holds every
  change made through the pointers).
\<close>

definition combineMetadataAndValues ::
  "Parameter list \<Rightarrow> addr list \<Rightarrow> heap \<Rightarrow> addr list \<times> heap" where
  "combineMetadataAndValues vals ml h =
     (let h1 = foldl (\<lambda>h a. h[a := mergeValue vals (h ! a)]) h ml
      in foldl addMissingSkip (ml, h1) vals)"

fun buildParamsToRender ::
  "(string \<Rightarrow> string) \<Rightarrow> addr list \<Rightarrow> Config \<Rightarrow> heap \<Rightarrow> addr list \<times> heap" where
  "buildParamsToRender trim [] cfg h = ([], h)"
| "buildParamsToRender trim (a # as) cfg h =
     (if Skip (h ! a) then buildParamsToRender trim as cfg h
      else (let h1 = h[a := applyModifiers trim (h ! a) cfg];
                r = buildParamsToRender trim as cfg h1
            in (a # fst r, snd r)))"

section \<open>Rendering the Markdown table\<close>

text \<open>The value cell; \<open>marshal\<close> is \<open>json.Marshal\<close>, and \<open>CHR 0x60\<close> is the backtick.\<close>

definition valueCell :: "(val \<Rightarrow> string) \<Rightarrow> Parameter \<Rightarrow> string" where
  "valueCell marshal p =
     (if \<not> Extra p then
        (case Value p of
           VString vv \<Rightarrow>
             (if vv = [] then [CHR 0x60, CHR 0x22, CHR 0x22, CHR 0x60]
              else [CHR 0x60] @ vv @ [CHR 0x60])
         | vv \<Rightarrow> [CHR 0x60] @ marshal vv @ [CHR 0x60])
      else [])"

definition tableRows :: "(val \<Rightarrow> string) \<Rightarrow> Parameter list \<Rightarrow> string list list" where
  "tableRows marshal params =
     [''Name'', ''Description'', ''Value''] #
     map (\<lambda>p. [[CHR 0x60] @ Name p @ [CHR 0x60], Description p, valueCell marshal p]) params"

text \<open>The width loop: \<open>if l := len(c); l > w[i] { w[i] = l }\<close> over the cells of a row.\<close>

definition widenRow :: "nat list \<Rightarrow> string list \<Rightarrow> nat list" where
  "widenRow w r =
     foldl (\<lambda>w ic. if length (snd ic) > w ! fst ic then w[fst ic := length (snd ic)] else w)
       w (enumerate 0 r)"

definition colWidths :: "string list list \<Rightarrow> nat list" where
  "colWidths rows = foldl widenRow (replicate (length (hd rows)) 0) rows"

text \<open>A cell followed by \<open>strings.Repeat(" ", w[j]-len(c))\<close>.\<close>

definition padCell :: "nat \<Rightarrow> string \<Rightarrow> string" where
  "padCell wj c = c @ replicate (wj - length c) CHR '' ''"

definition renderRow :: "nat list \<Rightarrow> string list \<Rightarrow> string" where
  "renderRow w r =
     ''|'' @ concat (map (\<lambda>jc. '' '' @ padCell (w ! fst jc) (snd jc) @ '' |'') (enumerate 0 r))"

definition renderSeparator :: "nat list \<Rightarrow> string" where
  "renderSeparator w = ''|'' @ concat (map (\<lambda>ww. '' '' @ replicate ww CHR ''-'' @ '' |'') w)"

text \<open>The lines written to the builder, in order; each is followed by a newline.\<close>

definition tableLines :: "(val \<Rightarrow> string) \<Rightarrow> Parameter list \<Rightarrow> string list" where
  "tableLines marshal params =
     (let rows = tableRows marshal params; w = colWidths rows
      in concat (map (\<lambda>ir. if fst ir = 0 then [renderRow w (snd ir), renderSeparator w]
                             else [renderRow w (snd ir)]) (enumerate 0 rows)))"

definition markdownTable :: "(val \<Rightarrow> string) \<Rightarrow> Parameter list \<Rightarrow> string" where
  "markdownTable marshal params = concat (map (\<lambda>l. l @ [CHR 0x0A]) (tableLines marshal params))"

definition SectionDescription :: "Section \<Rightarrow> string" where
  "SectionDescription sec = joinWith [CHR 0x0D, CHR 0x0A] (DescriptionLines sec)"

definition renderSection :: "(val \<Rightarrow> string) \<Rightarrow> heap \<Rightarrow> Section \<Rightarrow> string \<Rightarrow> string" where
  "renderSection marshal h sec hashes =
     hashes @ '' '' @ SecName sec @ [CHR 0x0A, CHR 0x0A]
     @ (if SectionDescription sec \<noteq> [] then SectionDescription sec else [])
     @ (if length (SecParameters sec) > 0
        then markdownTable marshal (map (\<lambda>a. h ! a) (SecParameters sec)) else [])"

definition renderReadmeTable :: "(val \<Rightarrow> string) \<Rightarrow> heap \<Rightarrow> Section list \<Rightarrow> string \<Rightarrow> string" where
  "renderReadmeTable marshal h secs hashes =
     concat (map (\<lambda>s. [CHR 0x0A] @ renderSection marshal h s hashes) secs)"

section \<open>insertReadmeTable\<close>

fun findStart :: "(string \<Rightarrow> string option) \<Rightarrow> string list \<Rightarrow> nat \<Rightarrow> (nat \<times> string) option" where
  "findStart re [] i = None"
| "findStart re (l # ls) i =
     (case re l of Some m1 \<Rightarrow> Some (i + 1, m1 @ ''#'') | None \<Rightarrow> findStart re ls (i + 1))"

text \<open>
  The expression \<open>^#...#\s\<close> with \<open>k\<close> hashes: the line starts with \<open>k\<close> hashes followed
  by one of the bytes of \<open>\s\<close> (tab, newline, form feed, carriage return, space).
\<close>

definition sameLevel :: "nat \<Rightarrow> string \<Rightarrow> bool" where
  "sameLevel k l =
     (prefix (replicate k CHR ''#'') l \<and> k < length l \<and>
      l ! k \<in> set [CHR 0x09, CHR 0x0A, CHR 0x0C, CHR 0x0D, CHR '' ''])"

definition findEnd :: "nat \<Rightarrow> string list \<Rightarrow> nat \<Rightarrow> nat" where
  "findEnd k lines start =
     (case find (\<lambda>i. sameLevel k (lines ! i)) [start..<length lines] of
        Some i \<Rightarrow> i
      | None \<Rightarrow> length lines)"

definition insertReadmeTable ::
  "libs \<Rightarrow> string \<Rightarrow> Section list \<Rightarrow> Config \<Rightarrow> heap \<Rightarrow> world \<Rightarrow> error option \<times> world" where
  "insertReadmeTable L readmePath secs cfg h w =
     (case readFile readmePath w of
        Inl e \<Rightarrow> (Some e, w)
      | Inr raw \<Rightarrow>
          (let lines = splitOn (CHR 0x0A) raw
           in case reStart L (Regexp_ParamsSectionTitle cfg) of
                None \<Rightarrow> (Some (Panic ''regexp: Compile''), w)
              | Some re \<Rightarrow>
                  (case findStart re lines 0 of
                     None \<Rightarrow> (Some NoParametersSection, w)
                   | Some (start, hPrefix) \<Rightarrow>
                       (let end = findEnd (length hPrefix - 1) lines start;
                            newTable = renderReadmeTable (jsonMarshal L) h secs hPrefix;
                            newLines = take start lines @ splitOn (CHR 0x0A) newTable
                                       @ drop end lines
                        in writeFile readmePath (joinWith [CHR 0x0A] newLines) w))))"

section \<open>The OpenAPI schema\<close>

definition itemsNode :: "Parameter \<Rightarrow> (string \<times> schema) list" where
  "itemsNode param =
     (let elemType = (case Value param of
                        VSlice (x # xs) \<Rightarrow> inferType x
                      | _ \<Rightarrow> [])
      in if elemType \<noteq> [] then [(''type'', SString elemType)] else [])"

definition leafNode :: "Parameter \<Rightarrow> schema" where
  "leafNode param =
     (let obj = [(''type'', SString (Type param)),
                 (''description'', SString (Description param)),
                 (''default'', SValue (Value param))];
          obj1 = (if HasModifier param ''nullable''
                  then AList.update ''nullable'' (SBool True) obj else obj);
          obj2 = (if Type param = ''array''
                  then AList.update ''items'' (SObject (itemsNode param)) obj1 else obj1)
      in SObject obj2)"

definition objectNode :: schema where
  "objectNode = SObject [(''type'', SString ''object''), (''properties'', SObject [])]"

text \<open>
  The walk over the path segments, on the \<open>properties\<close> map of the current level. The
  type assertion \<open>cur[part].(schemaObject)["properties"].(schemaObject)\<close> panics when
  the node has no \<open>properties\<close> entry that is a map.
\<close>

fun addAt ::
  "string list \<Rightarrow> Parameter \<Rightarrow> (string \<times> schema) list \<Rightarrow> error + (string \<times> schema) list" where
  "addAt [] param cur = Inr cur"
| "addAt [part] param cur = Inr (AList.update part (leafNode param) cur)"
| "addAt (part # rest) param cur =
     (case (case map_of cur part of None \<Rightarrow> objectNode | Some n \<Rightarrow> n) of
        SObject flds \<Rightarrow>
          (case map_of flds ''properties'' of
             Some (SObject props) \<Rightarrow>
               (case addAt rest param props of
                  Inl e \<Rightarrow> Inl e
                | Inr props' \<Rightarrow>
                    Inr (AList.update part
                           (SObject (AList.update ''properties'' (SObject props') flds)) cur))
           | _ \<Rightarrow> Inl (Panic ''interface conversion''))
      | _ \<Rightarrow> Inl (Panic ''interface conversion''))"

definition newSchemaGenerator :: "(string \<times> schema) list" where
  "newSchemaGenerator =
     [(''title'', SString ''Chart Values''), (''type'', SString ''object''),
      (''properties'', SObject [])]"

definition schemaAdd ::
  "Parameter \<Rightarrow> (string \<times> schema) list \<Rightarrow> error + (string \<times> schema) list" where
  "schemaAdd param root =
     (if Extra param \<or> \<not> Schema param \<or> HasModifier param ''object'' then Inr root
      else case map_of root ''properties'' of
             Some (SObject cur) \<Rightarrow>
               (case addAt (splitOn CHR ''.'' (Name param)) param cur of
                  Inl e \<Rightarrow> Inl e
                | Inr cur' \<Rightarrow> Inr (AList.update ''properties'' (SObject cur') root))
           | _ \<Rightarrow> Inl (Panic ''interface conversion''))"

fun schemaAddAll ::
  "Parameter list \<Rightarrow> (string \<times> schema) list \<Rightarrow> error + (string \<times> schema) list" where
  "schemaAddAll [] root = Inr root"
| "schemaAddAll (p # ps) root =
     (case schemaAdd p root of Inl e \<Rightarrow> Inl e | Inr root' \<Rightarrow> schemaAddAll ps root')"

definition renderOpenAPISchema ::
  "libs \<Rightarrow> string \<Rightarrow> Parameter list \<Rightarrow> world \<Rightarrow> error option \<times> world" where
  "renderOpenAPISchema L path params w =
     (case schemaAddAll params newSchemaGenerator of
        Inl e \<Rightarrow> (Some e, w)
      | Inr root \<Rightarrow> writeFile path (jsonMarshalIndent L root) w)"

section \<open>getParsedMetadata and runReadmeGenerator\<close>

definition getParsedMetadata ::
  "libs \<Rightarrow> string \<Rightarrow> Config \<Rightarrow> world \<Rightarrow> (error + (Metadata \<times> heap)) \<times> world" where
  "getParsedMetadata L valuesPath cfg w =
     (case createValuesObject L valuesPath w of
        Inl e \<Rightarrow> (Inl e, w)
      | Inr valuesObj \<Rightarrow>
          (case parseMetadataComments L valuesPath cfg w of
             Inl e \<Rightarrow> (Inl e, w)
           | Inr (m, h) \<Rightarrow>
               (case checkKeys valuesObj (map (\<lambda>a. h ! a) (Parameters m)) w of
                  (Some e, w1) \<Rightarrow> (Inl e, w1)
                | (None, w1) \<Rightarrow>
                    (Inr (m, snd (combineMetadataAndValues valuesObj (Parameters m) h)), w1))))"

record options =
  valuesPath :: string
  readmePath :: string
  configPath :: string
  schemaPath :: string
  version :: bool

text \<open>The package variable \<open>version\<close>, as the source initialises it.\<close>

definition buildVersion :: string where
  "buildVersion = ''dev''"

fun buildSections ::
  "(string \<Rightarrow> string) \<Rightarrow> Section list \<Rightarrow> Config \<Rightarrow> heap \<Rightarrow> Section list \<times> heap" where
  "buildSections trim [] cfg h = ([], h)"
| "buildSections trim (sec # secs) cfg h =
     (let r = buildParamsToRender trim (SecParameters sec) cfg h;
          rs = buildSections trim secs cfg (snd r)
      in (sec\<lparr>SecParameters := fst r\<rparr> # fst rs, snd rs))"

text \<open>
  The README phase and the schema phase of \<open>runReadmeGenerator\<close>; each returns the error
  (if any), the metadata and heap as the phase leaves them, and the world.
\<close>

definition readmePhase ::
  "libs \<Rightarrow> options \<Rightarrow> Config \<Rightarrow> Metadata \<times> heap \<Rightarrow> world
     \<Rightarrow> error option \<times> (Metadata \<times> heap) \<times> world" where
  "readmePhase L opts cfg mh w =
     (if readmePath opts \<noteq> [] then
        (let r = buildSections (trimSpace L) (Sections (fst mh)) cfg (snd mh);
             m1 = (fst mh)\<lparr>Sections := fst r\<rparr>
         in case insertReadmeTable L (readmePath opts) (Sections m1) cfg (snd r) w of
              (Some e, w1) \<Rightarrow> (Some e, (m1, snd r), w1)
            | (None, w1) \<Rightarrow>
                (None, (m1, snd r),
                 println (''README updated '' @ [CHR 0xE2, CHR 0x9C, CHR 0x85]) w1))
      else (None, mh, w))"

definition schemaPhase ::
  "libs \<Rightarrow> options \<Rightarrow> Config \<Rightarrow> Metadata \<times> heap \<Rightarrow> world
     \<Rightarrow> error option \<times> (Metadata \<times> heap) \<times> world" where
  "schemaPhase L opts cfg mh w =
     (if schemaPath opts \<noteq> [] then
        (let r = buildParamsToRender (trimSpace L) (Parameters (fst mh)) cfg (snd mh);
             m1 = (fst mh)\<lparr>Parameters := fst r\<rparr>
         in case renderOpenAPISchema L (schemaPath opts)
                   (map (\<lambda>a. snd r ! a) (Parameters m1)) w of
              (Some e, w1) \<Rightarrow> (Some e, (m1, snd r), w1)
            | (None, w1) \<Rightarrow>
                (None, (m1, snd r),
                 println (''Schema generated '' @ [CHR 0xE2, CHR 0x9C, CHR 0x85]) w1))
      else (None, mh, w))"

definition runReadmeGenerator :: "libs \<Rightarrow> options \<Rightarrow> world \<Rightarrow> error option \<times> world" where
  "runReadmeGenerator L opts w =
     (if version opts then (None, println (''Version: '' @ buildVersion) w)
      else case loadConfig L (configPath opts) w of
             Inl e \<Rightarrow> (Some e, w)
           | Inr cfg \<Rightarrow>
               (case getParsedMetadata L (valuesPath opts) cfg w of
                  (Inl e, w1) \<Rightarrow> (Some e, w1)
                | (Inr mh, w1) \<Rightarrow>
                    (case readmePhase L opts cfg mh w1 of
                       (Some e, mh2, w2) \<Rightarrow> (Some e, w2)
                     | (None, mh2, w2) \<Rightarrow>
                         (case schemaPhase L opts cfg mh2 w2 of
                            (e, mh3, w3) \<Rightarrow> (e, w3)))))"

section \<open>Concrete runs\<close>

text \<open>
  The runs below fix a values file and give the library functions on the inputs the run
  passes to them: the YAML tree of the file, and for each of its lines what the seven
  expressions of the directive parser (built from the default configuration) match.
\<close>

definition noMatch :: line_matches where
  "noMatch =
     \<lparr>regSection = None, regDescStart = None, regDescEnd = False, regDescContent = None,
      regParam = None, regSkip = None, regExtra = None\<rparr>"

text \<open>A line that matches none of the five directive expressions.\<close>

definition noDirective :: "line_matches \<Rightarrow> bool" where
  "noDirective lm =
     (regSection lm = None \<and> regDescStart lm = None \<and> regParam lm = None \<and>
      regSkip lm = None \<and> regExtra lm = None)"

definition baseLibs :: libs where
  "baseLibs =
     \<lparr>yamlUnmarshal = (\<lambda>raw. Inl (ParseError raw)),
      jsonUnmarshal = (\<lambda>data cfg. Inr cfg),
      jsonMarshal = (\<lambda>v. ''null''),
      jsonMarshalIndent = (\<lambda>root. ''{}''),
      trimSpace = (\<lambda>s. s),
      lineMatches = (\<lambda>cfg l. noMatch),
      reStart = (\<lambda>title. Some (\<lambda>l. if prefix (''## '' @ title) l then Some ''##'' else None))\<rparr>"

definition baseWorld :: "string \<Rightarrow> world" where
  "baseWorld src =
     \<lparr>files = (\<lambda>path. if path = ''values.yaml'' then Inr src
                      else if path = ''README.md'' then Inr ''## Parameters''
                      else Inl (NotExist path)),
      writeErr = (\<lambda>path. None),
      stdout = []\<rparr>"

definition baseOpts :: options where
  "baseOpts =
     \<lparr>valuesPath = ''values.yaml'', readmePath = ''README.md'', configPath = ''config.json'',
      schemaPath = ''values.schema.json'', version = False\<rparr>"

text \<open>The values file \<open>x: [1,2]\<close>, with no comment line.\<close>

definition xTree :: val where
  "xTree = VMap [(''x'', VSlice [VInt 1, VInt 2])]"

definition xLibs :: libs where
  "xLibs = baseLibs\<lparr>yamlUnmarshal :=
             (\<lambda>raw. if raw = ''x: [1,2]'' then Inr xTree else Inl (ParseError raw))\<rparr>"

text \<open>
  The values file with the three lines \<open>## @skip a\<close>, \<open>a:\<close> and \<open>  b: 1\<close>. Its first
  line matches the skip expression with submatch \<open>a\<close> and the description-content
  expression with submatch \<open>@skip a\<close>.
\<close>

definition skipSource :: string where
  "skipSource = ''## @skip a'' @ [CHR 0x0A] @ ''a:'' @ [CHR 0x0A] @ ''  b: 1''"

definition skipTree :: val where
  "skipTree = VMap [(''a'', VMap [(''b'', VInt 1)])]"

definition skipLibs :: libs where
  "skipLibs = baseLibs
     \<lparr>yamlUnmarshal := (\<lambda>raw. if raw = skipSource then Inr skipTree else Inl (ParseError raw)),
      lineMatches := (\<lambda>cfg l. if l = ''## @skip a''
                               then noMatch\<lparr>regSkip := Some ''a'', regDescContent := Some ''@skip a''\<rparr>
                               else noMatch)\<rparr>"

text \<open>
  The values file with the two lines \<open>## @param b A key\<close> and \<open>a: 1\<close>. Its first line
  matches the parameter expression with submatches \<open>b\<close>, the empty string (no modifier
  list) and \<open>A key\<close>, and the description-content expression.
\<close>

definition orphanSource :: string where
  "orphanSource = ''## @param b A key'' @ [CHR 0x0A] @ ''a: 1''"

definition orphanLibs :: libs where
  "orphanLibs = baseLibs
     \<lparr>yamlUnmarshal := (\<lambda>raw. if raw = orphanSource then Inr (VMap [(''a'', VInt 1)])
                              else Inl (ParseError raw)),
      lineMatches := (\<lambda>cfg l. if l = ''## @param b A key''
                               then noMatch\<lparr>regParam := Some (''b'', [], ''A key''),
                                            regDescContent := Some ''@param b A key''\<rparr>
                               else noMatch)\<rparr>"

text \<open>The tree \<open>{db: {host: "h", port: 1}}\<close>.\<close>

definition dbTree :: val where
  "dbTree = VMap [(''db'', VMap [(''host'', VString ''h''), (''port'', VInt 1)])]"

section \<open>The role flags\<close>

text \<open>
  Claim C8. Every parameter produced by construction followed by any sequence of
  \<open>SetSkip\<close> and \<open>SetExtra\<close> calls (with either argument) has its flags
  \<open>(Validate, Readme)\<close> in one of the three combinations \<open>(true,true)\<close> (Normal),
  \<open>(false,false)\<close> (Skip) and \<open>(false,true)\<close> (Extra), so \<open>(true,false)\<close> is never
  produced; construction gives Normal, marking Skip gives Skip, marking Extra gives
  Extra, unmarking Skip gives Normal, and the predicates \<open>Skip\<close> and \<open>Extra\<close> read
  exactly these combinations.
\<close>

theorem role_flags_three_combinations:
  "role_flags (foldl role_step (NewParameter name) ops)
     \<in> {(True, True), (False, False), (False, True)}
   \<and> role_flags (NewParameter name) = (True, True)
   \<and> role_flags (SetSkip p True) = (False, False)
   \<and> role_flags (SetExtra p True) = (False, True)
   \<and> role_flags (SetSkip p False) = (True, True)
   \<and> Skip q = (role_flags q = (False, False))
   \<and> Extra q = (role_flags q = (False, True))"
proof -
  have "role_flags (foldl role_step (NewParameter name) ops)
          \<in> {(True, True), (False, False), (False, True)}"
  proof (induction ops rule: rev_induct)
    case Nil
    show ?case by (simp add: role_flags_def NewParameter_def)
  next
    case (snoc x xs)
    then show ?case
      by (cases x) (auto simp: role_flags_def SetSkip_def SetExtra_def)
  qed
  then show ?thesis
    by (simp add: role_flags_def NewParameter_def SetSkip_def SetExtra_def Skip_def Extra_def)
qed

section \<open>The modifier engine: order and idempotence\<close>

lemma applyModifier_shape:
  "applyModifier ts cfg nl p m =
     p\<lparr>Type := Type (applyModifier ts cfg nl p m), Value := Value (applyModifier ts cfg nl p m)\<rparr>"
  by (simp add: applyModifier_def)

lemma foldl_applyModifier_shape:
  "foldl (applyModifier ts cfg nl) p ms =
     p\<lparr>Type := Type (foldl (applyModifier ts cfg nl) p ms),
       Value := Value (foldl (applyModifier ts cfg nl) p ms)\<rparr>"
proof (induction ms arbitrary: p)
  case Nil
  show ?case by simp
next
  case (Cons m ms)
  let ?q = "applyModifier ts cfg nl p m"
  have "foldl (applyModifier ts cfg nl) ?q ms =
          ?q\<lparr>Type := Type (foldl (applyModifier ts cfg nl) ?q ms),
             Value := Value (foldl (applyModifier ts cfg nl) ?q ms)\<rparr>"
    by (rule Cons.IH)
  also have "\<dots> = p\<lparr>Type := Type (foldl (applyModifier ts cfg nl) ?q ms),
                     Value := Value (foldl (applyModifier ts cfg nl) ?q ms)\<rparr>"
    by (subst applyModifier_shape) simp
  finally show ?case by simp
qed

text \<open>
  One modifier acts on the type as the identity or as a constant, and on the value as the
  identity, as the replacement of nil by the string \<open>nil\<close>, or as a constant other than
  nil; which one depends on the modifier only.
\<close>

lemma applyModifier_Type_cases:
  "(\<forall>p. Type (applyModifier ts cfg nl p m) = Type p) \<or>
   (\<exists>t. \<forall>p. Type (applyModifier ts cfg nl p m) = t)"
  by (cases "m = Modifiers_Array cfg"; cases "m = Modifiers_Object cfg";
      cases "m = Modifiers_String cfg"; cases "m = Modifiers_Nullable cfg";
      cases "prefix (Modifiers_Default cfg @ '':'') m"; cases nl)
     (simp_all add: applyModifier_def)

lemma applyModifier_Value_cases:
  "(\<forall>p. Value (applyModifier ts cfg nl p m) = Value p) \<or>
   (\<forall>p. Value (applyModifier ts cfg nl p m) =
          (if Value p = VNil then VString ''nil'' else Value p)) \<or>
   (\<exists>c. c \<noteq> VNil \<and> (\<forall>p. Value (applyModifier ts cfg nl p m) = c))"
  by (cases "m = Modifiers_Array cfg"; cases "m = Modifiers_Object cfg";
      cases "m = Modifiers_String cfg"; cases "m = Modifiers_Nullable cfg";
      cases "prefix (Modifiers_Default cfg @ '':'') m"; cases nl)
     (simp_all add: applyModifier_def)

lemma foldl_Type_cases:
  "(\<forall>p. Type (foldl (applyModifier ts cfg nl) p ms) = Type p) \<or>
   (\<exists>t. \<forall>p. Type (foldl (applyModifier ts cfg nl) p ms) = t)"
proof (induction ms)
  case Nil
  show ?case by simp
next
  case (Cons m ms)
  from Cons.IH applyModifier_Type_cases [of ts cfg nl m] show ?case
    by auto
qed

lemma foldl_Value_cases:
  "(\<forall>p. Value (foldl (applyModifier ts cfg nl) p ms) = Value p) \<or>
   (\<forall>p. Value (foldl (applyModifier ts cfg nl) p ms) =
          (if Value p = VNil then VString ''nil'' else Value p)) \<or>
   (\<exists>c. c \<noteq> VNil \<and> (\<forall>p. Value (foldl (applyModifier ts cfg nl) p ms) = c))"
proof (induction ms)
  case Nil
  show ?case by simp
next
  case (Cons m ms)
  from Cons.IH applyModifier_Value_cases [of ts cfg nl m] show ?case
    apply simp
    apply (elim disjE exE conjE)
            apply simp_all
    done
qed

lemma foldl_applyModifier_idem:
  "foldl (applyModifier ts cfg nl) (foldl (applyModifier ts cfg nl) p ms) ms =
   foldl (applyModifier ts cfg nl) p ms"
proof -
  let ?F = "\<lambda>p. foldl (applyModifier ts cfg nl) p ms"
  have T: "Type (?F (?F p)) = Type (?F p)"
    using foldl_Type_cases [of ts cfg nl ms] by auto
  have V: "Value (?F (?F p)) = Value (?F p)"
    using foldl_Value_cases [of ts cfg nl ms] by auto
  have "?F (?F p) = (?F p)\<lparr>Type := Type (?F (?F p)), Value := Value (?F (?F p))\<rparr>"
    by (rule foldl_applyModifier_shape)
  also have "\<dots> = ?F p" by (simp add: T V)
  finally show ?thesis .
qed

lemma applyModifiers_Modifiers: "Modifiers (applyModifiers ts p cfg) = Modifiers p"
proof (cases "Modifiers p = []")
  case True
  then show ?thesis by (simp add: applyModifiers_def)
next
  case False
  have "Modifiers (foldl (applyModifier ts cfg (nullableLast p cfg)) p (Modifiers p)) = Modifiers p"
    by (subst foldl_applyModifier_shape) simp
  with False show ?thesis by (simp add: applyModifiers_def)
qed

text \<open>
  Claim C3. With the default modifier tokens, on a parameter with no value, the modifier
  list \<open>[array, nullable]\<close> gives type \<open>array\<close> and the null sentinel (the string \<open>nil\<close>)
  as value: \<open>nullable\<close> is last, so the array branch leaves the value alone and the
  nullable branch sets the sentinel. The list \<open>[nullable, array]\<close> gives type \<open>array\<close>
  and the empty sequence: the array branch overwrites the sentinel.
\<close>

theorem modifier_order_sensitivity:
  "applyModifiers ts (p\<lparr>Value := VNil, Modifiers := [''array'', ''nullable'']\<rparr>) defaultConfig =
     p\<lparr>Value := VString ''nil'', Type := ''array'', Modifiers := [''array'', ''nullable'']\<rparr> \<and>
   applyModifiers ts (p\<lparr>Value := VNil, Modifiers := [''nullable'', ''array'']\<rparr>) defaultConfig =
     p\<lparr>Value := VSlice [], Type := ''array'', Modifiers := [''nullable'', ''array'']\<rparr>"
  by (simp add: applyModifiers_def applyModifier_def nullableLast_def HasModifier_def
      defaultConfig_def)

text \<open>
  Claim C10. For every parameter, every configuration and every modifier list, applying
  the modifier engine to the result of applying it gives that result again: the whole
  parameter (type and value included) is the same after two applications as after one.
\<close>

theorem applyModifiers_idempotent:
  "applyModifiers ts (applyModifiers ts p cfg) cfg = applyModifiers ts p cfg"
proof (cases "Modifiers p = []")
  case True
  then show ?thesis by (simp add: applyModifiers_def)
next
  case False
  let ?q = "applyModifiers ts p cfg"
  have M: "Modifiers ?q = Modifiers p" by (rule applyModifiers_Modifiers)
  then have N: "nullableLast ?q cfg = nullableLast p cfg"
    by (simp add: nullableLast_def HasModifier_def)
  have Q: "?q = foldl (applyModifier ts cfg (nullableLast p cfg)) p (Modifiers p)"
    using False by (simp add: applyModifiers_def)
  have "applyModifiers ts ?q cfg =
        foldl (applyModifier ts cfg (nullableLast p cfg)) ?q (Modifiers p)"
    using False M N by (simp add: applyModifiers_def [of ts ?q cfg])
  also have "\<dots> = ?q"
    by (subst (1 2) Q) (rule foldl_applyModifier_idem)
  finally show ?thesis .
qed

section \<open>Type inference on the flattened tree\<close>

lemma valuesOfTree_Type: "p \<in> set (valuesOfTree node) \<Longrightarrow> Type p = inferType (Value p)"
  by (auto simp: valuesOfTree_def valueParameter_def)

lemma valuesOfTree_xTree:
  "valuesOfTree xTree =
     [(NewParameter ''x[0]'')\<lparr>Value := VInt 1, Type := ''number''\<rparr>,
      (NewParameter ''x[1]'')\<lparr>Value := VInt 2, Type := ''number''\<rparr>]"
  by (simp add: valuesOfTree_def xTree_def valueParameter_def NewParameter_def
      decimal.simps digit_def)

text \<open>
  Claim C6, as stated, fails: for the tree \<open>{a: null}\<close> the flattened entry \<open>a\<close> has the
  inferred type \<open>nil\<close>, which is not one of \<open>null, string, boolean, number, array,
  object, unknown\<close>.
\<close>

theorem inferType_null_counterexample:
  "map Type (valuesOfTree (VMap [(''a'', VNil)])) = [''nil''] \<and>
   ''nil'' \<notin> {''null'', ''string'', ''boolean'', ''number'', ''array'', ''object'', ''unknown''}"
  by (simp add: valuesOfTree_def valueParameter_def NewParameter_def)

text \<open>
  Claim C6, amended. For every value, and so for every entry of the flattened tree, the
  inferred type is one of \<open>nil, string, boolean, number, array, object, unknown\<close>; the
  Go types \<open>int\<close>, \<open>int64\<close> and \<open>float64\<close> all give \<open>number\<close>; and each of the seven
  types is the inferred type of some value.
\<close>

theorem inferType_kinds:
  "inferType v \<in> {''nil'', ''string'', ''boolean'', ''number'', ''array'', ''object'', ''unknown''}
   \<and> (\<forall>p\<in>set (valuesOfTree node).
         Type p = inferType (Value p) \<and>
         Type p \<in> {''nil'', ''string'', ''boolean'', ''number'', ''array'', ''object'', ''unknown''})
   \<and> inferType (VInt i) = ''number'' \<and> inferType (VInt64 j) = ''number''
   \<and> inferType (VFloat64 f) = ''number''
   \<and> inferType VNil = ''nil'' \<and> inferType (VString s) = ''string''
   \<and> inferType (VBool b) = ''boolean'' \<and> inferType (VSlice xs) = ''array''
   \<and> inferType (VMap kvs) = ''object'' \<and> inferType (VOther t) = ''unknown''"
proof -
  have A: "inferType u \<in> {''nil'', ''string'', ''boolean'', ''number'', ''array'', ''object'', ''unknown''}"
    for u
    by (cases u) simp_all
  have B: "\<forall>p\<in>set (valuesOfTree node).
         Type p = inferType (Value p) \<and>
         Type p \<in> {''nil'', ''string'', ''boolean'', ''number'', ''array'', ''object'', ''unknown''}"
  proof
    fix p assume "p \<in> set (valuesOfTree node)"
    then have "Type p = inferType (Value p)" by (rule valuesOfTree_Type)
    with A [of "Value p"] show "Type p = inferType (Value p) \<and>
         Type p \<in> {''nil'', ''string'', ''boolean'', ''number'', ''array'', ''object'', ''unknown''}"
      by simp
  qed
  show ?thesis by (intro conjI A B) simp_all
qed

text \<open>
  Witness for claim C6 (amended): the tree \<open>{x: [1, 2]}\<close> has the two flattened entries
  \<open>x[0]\<close> and \<open>x[1]\<close>, both of type \<open>number\<close>.
\<close>

theorem inferType_kinds_witness:
  "map Type (valuesOfTree xTree) = [''number'', ''number''] \<and>
   list_all (\<lambda>p. Type p = inferType (Value p) \<and>
         Type p \<in> {''nil'', ''string'', ''boolean'', ''number'', ''array'', ''object'', ''unknown''})
     (valuesOfTree xTree)"
proof -
  have "map Type (valuesOfTree xTree) = [''number'', ''number'']"
    by (simp add: valuesOfTree_xTree NewParameter_def)
  moreover have "\<forall>p\<in>set (valuesOfTree xTree). Type p = inferType (Value p) \<and>
         Type p \<in> {''nil'', ''string'', ''boolean'', ''number'', ''array'', ''object'', ''unknown''}"
    by (rule inferType_kinds [THEN conjunct2, THEN conjunct1])
  ultimately show ?thesis
    unfolding list_all_iff by (rule conjI)
qed

section \<open>Reconciliation failures stop the run\<close>

lemma foldl_println:
  "foldl (\<lambda>w k. println (f k) w) w ks = w\<lparr>stdout := stdout w @ map f ks\<rparr>"
  by (induction ks arbitrary: w) (simp_all add: println_def)

lemma checkKeys_fail:
  assumes "missing real ms \<noteq> [] \<or> orphan real ms \<noteq> []"
  shows "checkKeys real ms w =
     (Some MetadataErrors,
      w\<lparr>stdout := stdout w
           @ map (\<lambda>k. ''ERROR: Missing metadata for key: '' @ k) (missing real ms)
           @ map (\<lambda>k. ''ERROR: Metadata provided for non existing key: '' @ k) (orphan real ms)\<rparr>)"
proof -
  have "\<not> (length (missing real ms) = 0 \<and> length (orphan real ms) = 0)"
    using assms by auto
  then show ?thesis
    by (simp add: checkKeys_def foldl_println Let_def)
qed

lemma checkKeys_ok:
  assumes "missing real ms = []" "orphan real ms = []"
  shows "checkKeys real ms w = (None, w\<lparr>stdout := stdout w @ [''INFO: Metadata is correct!'']\<rparr>)"
  using assms by (simp add: checkKeys_def println_def)

lemma run_validation_failure:
  assumes "\<not> version opts"
    and "loadConfig L (configPath opts) w = Inr cfg"
    and "createValuesObject L (valuesPath opts) w = Inr real"
    and "parseMetadataComments L (valuesPath opts) cfg w = Inr (m, h)"
    and "missing real (map (\<lambda>a. h ! a) (Parameters m)) \<noteq> [] \<or>
         orphan real (map (\<lambda>a. h ! a) (Parameters m)) \<noteq> []"
  shows "runReadmeGenerator L opts w =
     (Some MetadataErrors,
      w\<lparr>stdout := stdout w
           @ map (\<lambda>k. ''ERROR: Missing metadata for key: '' @ k)
               (missing real (map (\<lambda>a. h ! a) (Parameters m)))
           @ map (\<lambda>k. ''ERROR: Metadata provided for non existing key: '' @ k)
               (orphan real (map (\<lambda>a. h ! a) (Parameters m)))\<rparr>)"
  using assms(1-4) checkKeys_fail [OF assms(5), of w]
  by (simp add: runReadmeGenerator_def getParsedMetadata_def)

text \<open>
  Claim C5. When the run reaches reconciliation (the configuration is loaded, the values
  file is read and decoded, the directives are parsed) and the missing set or the orphan
  set is not empty, the run fails with the single error \<open>metadata errors found\<close>; it
  prints one line for every missing path and then one line for every orphan path, and
  nothing else; and no file is written: the files are what they were, the target
  document and the schema file included.
\<close>

theorem validation_failure_stops_run:
  assumes "\<not> version opts"
    and "loadConfig L (configPath opts) w = Inr cfg"
    and "createValuesObject L (valuesPath opts) w = Inr real"
    and "parseMetadataComments L (valuesPath opts) cfg w = Inr (m, h)"
    and "missing real (map (\<lambda>a. h ! a) (Parameters m)) \<noteq> [] \<or>
         orphan real (map (\<lambda>a. h ! a) (Parameters m)) \<noteq> []"
  shows "fst (runReadmeGenerator L opts w) = Some MetadataErrors
     \<and> stdout (snd (runReadmeGenerator L opts w)) =
         stdout w
           @ map (\<lambda>k. ''ERROR: Missing metadata for key: '' @ k)
               (missing real (map (\<lambda>a. h ! a) (Parameters m)))
           @ map (\<lambda>k. ''ERROR: Metadata provided for non existing key: '' @ k)
               (orphan real (map (\<lambda>a. h ! a) (Parameters m)))
     \<and> files (snd (runReadmeGenerator L opts w)) = files w"
  by (simp add: run_validation_failure [OF assms])

lemma orphan_run_parts:
  "loadConfig orphanLibs (configPath baseOpts) (baseWorld orphanSource) = Inr defaultConfig"
  "createValuesObject orphanLibs (valuesPath baseOpts) (baseWorld orphanSource) =
     Inr [(NewParameter ''a'')\<lparr>Value := VInt 1, Type := ''number''\<rparr>]"
  "parseMetadataComments orphanLibs (valuesPath baseOpts) defaultConfig (baseWorld orphanSource) =
     Inr (\<lparr>Sections = [], Parameters = [0]\<rparr>, [(NewParameter ''b'')\<lparr>Description := ''A key''\<rparr>])"
    apply (simp add: loadConfig_def baseOpts_def readFile_def baseWorld_def)
   apply (simp add: createValuesObject_def baseOpts_def readFile_def baseWorld_def orphanLibs_def
      baseLibs_def valuesOfTree_def valueParameter_def NewParameter_def)
  apply (simp add: parseMetadataComments_def baseOpts_def readFile_def baseWorld_def orphanLibs_def
      baseLibs_def orphanSource_def parseLine_def trimRightSet_def noMatch_def
      declareParameter_def parseModifiers_def trimSet_def NewParameter_def)
  done

lemma orphan_run_lists:
  "missing [(NewParameter ''a'')\<lparr>Value := VInt 1, Type := ''number''\<rparr>]
     (map (\<lambda>a. [(NewParameter ''b'')\<lparr>Description := ''A key''\<rparr>] ! a) [0]) = [''a'']"
  "orphan [(NewParameter ''a'')\<lparr>Value := VInt 1, Type := ''number''\<rparr>]
     (map (\<lambda>a. [(NewParameter ''b'')\<lparr>Description := ''A key''\<rparr>] ! a) [0]) = [''b'']"
  by (simp_all add: missing_def orphan_def realKeys_def metaKeys_def skipNames_def
      isSkipped_def difference_def Extra_def Skip_def NewParameter_def)

text \<open>
  Witness for claim C5: the values file with the lines \<open>## @param b A key\<close> and
  \<open>a: 1\<close> has the missing path \<open>a\<close> and the orphan path \<open>b\<close>; both are reported,
  the run fails, and no file changes.
\<close>

theorem validation_failure_stops_run_witness:
  "fst (runReadmeGenerator orphanLibs baseOpts (baseWorld orphanSource)) = Some MetadataErrors
   \<and> stdout (snd (runReadmeGenerator orphanLibs baseOpts (baseWorld orphanSource))) =
       [''ERROR: Missing metadata for key: a'',
        ''ERROR: Metadata provided for non existing key: b'']
   \<and> files (snd (runReadmeGenerator orphanLibs baseOpts (baseWorld orphanSource))) =
       files (baseWorld orphanSource)"
proof -
  have v: "\<not> version baseOpts" by (simp add: baseOpts_def)
  have ne: "missing [(NewParameter ''a'')\<lparr>Value := VInt 1, Type := ''number''\<rparr>]
     (map (\<lambda>a. [(NewParameter ''b'')\<lparr>Description := ''A key''\<rparr>] ! a)
        (Parameters \<lparr>Sections = [], Parameters = [0]\<rparr>)) \<noteq> [] \<or>
    orphan [(NewParameter ''a'')\<lparr>Value := VInt 1, Type := ''number''\<rparr>]
     (map (\<lambda>a. [(NewParameter ''b'')\<lparr>Description := ''A key''\<rparr>] ! a)
        (Parameters \<lparr>Sections = [], Parameters = [0]\<rparr>)) \<noteq> []"
    using orphan_run_lists by simp
  show ?thesis
    using validation_failure_stops_run [OF v orphan_run_parts ne] orphan_run_lists
    by (simp add: baseWorld_def)
qed

section \<open>The tree with one sequence and no directive\<close>

lemma parseLine_noDirective:
  "noDirective (lineMatches L cfg (trimRightSet [CHR 0x0D, CHR 0x0A] line)) \<Longrightarrow>
   \<not> descriptionMode st \<Longrightarrow> parseLine L cfg st line = st"
  by (simp add: parseLine_def noDirective_def Let_def)

lemma foldl_parseLine_noDirective:
  "\<forall>l\<in>set ls. noDirective (lineMatches L cfg (trimRightSet [CHR 0x0D, CHR 0x0A] l)) \<Longrightarrow>
   \<not> descriptionMode st \<Longrightarrow> foldl (parseLine L cfg) st ls = st"
  by (induction ls) (simp_all add: parseLine_noDirective)

lemma missing_xTree:
  "missing (valuesOfTree xTree) [] = [''x[0]'', ''x[1]'']" "orphan (valuesOfTree xTree) [] = []"
  by (simp_all add: valuesOfTree_xTree missing_def orphan_def realKeys_def metaKeys_def
      skipNames_def isSkipped_def difference_def Extra_def NewParameter_def)

text \<open>
  Claim C1, amended. For the input tree \<open>{x: [1,2]}\<close> with no directive in the source
  text, flattening gives the real keys \<open>x[0]\<close> and \<open>x[1]\<close>, the parser declares
  nothing, and reconciliation reports both keys as missing metadata: the run fails with
  the validation error before the Merger runs, prints the two reports and writes no file
  (no table row and no schema property is produced).
\<close>

theorem x_tree_without_directives_fails:
  assumes "\<not> version opts"
    and "loadConfig L (configPath opts) w = Inr cfg"
    and "files w (valuesPath opts) = Inr src"
    and "yamlUnmarshal L src = Inr xTree"
    and "\<forall>l\<in>set (splitOn (CHR 0x0A) src).
           noDirective (lineMatches L cfg (trimRightSet [CHR 0x0D, CHR 0x0A] l))"
  shows "map Name (valuesOfTree xTree) = [''x[0]'', ''x[1]'']
     \<and> parseMetadataComments L (valuesPath opts) cfg w =
         Inr (\<lparr>Sections = [], Parameters = []\<rparr>, [])
     \<and> runReadmeGenerator L opts w =
         (Some MetadataErrors,
          w\<lparr>stdout := stdout w @ [''ERROR: Missing metadata for key: x[0]'',
                                   ''ERROR: Missing metadata for key: x[1]'']\<rparr>)"
proof -
  have c: "createValuesObject L (valuesPath opts) w = Inr (valuesOfTree xTree)"
    using assms(3,4) by (simp add: createValuesObject_def readFile_def)
  have p: "parseMetadataComments L (valuesPath opts) cfg w =
         Inr (\<lparr>Sections = [], Parameters = []\<rparr>, [])"
    using assms(3) foldl_parseLine_noDirective [OF assms(5)]
    by (simp add: parseMetadataComments_def readFile_def)
  have ne: "missing (valuesOfTree xTree) (map (\<lambda>a. [] ! a) (Parameters \<lparr>Sections = [], Parameters = []\<rparr>)) \<noteq> [] \<or>
            orphan (valuesOfTree xTree) (map (\<lambda>a. [] ! a) (Parameters \<lparr>Sections = [], Parameters = []\<rparr>)) \<noteq> []"
    by (simp add: missing_xTree)
  have n: "map Name (valuesOfTree xTree) = [''x[0]'', ''x[1]'']"
    by (simp add: valuesOfTree_xTree NewParameter_def)
  show ?thesis
    using run_validation_failure [OF assms(1,2) c p ne] p n
    by (simp add: missing_xTree)
qed

text \<open>
  Witness for claim C1 (amended): the run on the file \<open>x: [1,2]\<close> that asks for the
  schema only.
\<close>

theorem x_tree_without_directives_fails_witness:
  "runReadmeGenerator xLibs (baseOpts\<lparr>readmePath := []\<rparr>) (baseWorld ''x: [1,2]'') =
     (Some MetadataErrors,
      (baseWorld ''x: [1,2]'')
        \<lparr>stdout := [''ERROR: Missing metadata for key: x[0]'',
                    ''ERROR: Missing metadata for key: x[1]'']\<rparr>)"
proof -
  let ?opts = "baseOpts\<lparr>readmePath := []\<rparr>" and ?w = "baseWorld ''x: [1,2]''"
  have 1: "\<not> version ?opts" by (simp add: baseOpts_def)
  have 2: "loadConfig xLibs (configPath ?opts) ?w = Inr defaultConfig"
    by (simp add: loadConfig_def baseOpts_def readFile_def baseWorld_def)
  have 3: "files ?w (valuesPath ?opts) = Inr ''x: [1,2]''"
    by (simp add: baseOpts_def baseWorld_def)
  have 4: "yamlUnmarshal xLibs ''x: [1,2]'' = Inr xTree"
    by (simp add: xLibs_def)
  have 5: "\<forall>l\<in>set (splitOn (CHR 0x0A) ''x: [1,2]'').
           noDirective (lineMatches xLibs defaultConfig (trimRightSet [CHR 0x0D, CHR 0x0A] l))"
    by (simp add: xLibs_def baseLibs_def noDirective_def noMatch_def)
  show ?thesis
    using x_tree_without_directives_fails [OF 1 2 3 4 5]
    by (simp add: baseWorld_def)
qed

text \<open>
  Claim C1, as stated, fails: the run on the values file \<open>x: [1,2]\<close> (no directive),
  asking for both the README and the schema, reports an error: it returns
  \<open>metadata errors found\<close> after printing that \<open>x[0]\<close> and \<open>x[1]\<close> have no metadata.
\<close>

theorem x_tree_run_counterexample:
  "fst (runReadmeGenerator xLibs baseOpts (baseWorld ''x: [1,2]'')) = Some MetadataErrors \<and>
   stdout (snd (runReadmeGenerator xLibs baseOpts (baseWorld ''x: [1,2]''))) =
     [''ERROR: Missing metadata for key: x[0]'', ''ERROR: Missing metadata for key: x[1]'']"
  by (simp add: runReadmeGenerator_def baseOpts_def loadConfig_def readFile_def baseWorld_def
      getParsedMetadata_def createValuesObject_def xLibs_def baseLibs_def valuesOfTree_xTree
      NewParameter_def parseMetadataComments_def
      parseLine_def noMatch_def trimRightSet_def checkKeys_def missing_def orphan_def
      realKeys_def metaKeys_def skipNames_def isSkipped_def difference_def Extra_def println_def)

section \<open>The synthesized Skip entries of the Merger\<close>

lemma skip_run_values:
  "valuesOfTree skipTree = [(NewParameter ''a.b'')\<lparr>Value := VInt 1, Type := ''number''\<rparr>]"
  by (simp add: valuesOfTree_def skipTree_def valueParameter_def NewParameter_def)

text \<open>
  Claim C2 on the code. For the values file \<open>## @skip a\<close>, \<open>a:\<close>, \<open>  b: 1\<close> the
  real entry \<open>a.b\<close> matches no declared parameter. \<open>combineMetadataAndValues\<close> builds
  the Skip parameter for \<open>a.b\<close> (heap cell 1) and appends it to its local slice, which
  ends as \<open>[0, 1]\<close>; the metadata that \<open>getParsedMetadata\<close> returns still has the
  parameter list \<open>[0]\<close>, the declaration of \<open>a\<close> alone.
\<close>

theorem merger_synthesis_not_visible:
  "getParsedMetadata skipLibs ''values.yaml'' defaultConfig (baseWorld skipSource) =
     (Inr (\<lparr>Sections = [], Parameters = [0]\<rparr>,
           [SetSkip (NewParameter ''a'') True,
            SetSkip ((NewParameter ''a.b'')\<lparr>Value := VInt 1, Type := ''number''\<rparr>) True]),
      (baseWorld skipSource)\<lparr>stdout := [''INFO: Metadata is correct!'']\<rparr>)
   \<and> combineMetadataAndValues (valuesOfTree skipTree) [0] [SetSkip (NewParameter ''a'') True] =
     ([0, 1],
      [SetSkip (NewParameter ''a'') True,
       SetSkip ((NewParameter ''a.b'')\<lparr>Value := VInt 1, Type := ''number''\<rparr>) True])"
  by (simp add: getParsedMetadata_def createValuesObject_def readFile_def baseWorld_def
      skipLibs_def baseLibs_def skip_run_values parseMetadataComments_def skipSource_def
      parseLine_def trimRightSet_def noMatch_def declareParameter_def
      checkKeys_def missing_def orphan_def realKeys_def metaKeys_def skipNames_def
      isSkipped_def isUnder_def difference_def Extra_def Skip_def SetSkip_def NewParameter_def
      sanitizeProperty_def println_def combineMetadataAndValues_def mergeValue_def
      addMissingSkip_def)

section \<open>Skip subtrees in reconciliation\<close>

lemma skipNames_foldl:
  "foldl (\<lambda>names p. if Skip p \<or> Modifiers p \<noteq> []
                       then insert (sanitizeProperty (Name p)) names else names) A ms =
   A \<union> {sanitizeProperty (Name d) | d. d \<in> set ms \<and> (Skip d \<or> Modifiers d \<noteq> [])}"
  by (induction ms arbitrary: A) auto

lemma skipNames_eq:
  "skipNames ms = {sanitizeProperty (Name d) | d. d \<in> set ms \<and> (Skip d \<or> Modifiers d \<noteq> [])}"
  by (simp add: skipNames_def skipNames_foldl)

lemma isSkipped_iff:
  "isSkipped (skipNames ms) q \<longleftrightarrow>
     (\<exists>d\<in>set ms. (Skip d \<or> Modifiers d \<noteq> []) \<and> isUnder q (sanitizeProperty (Name d)))"
  by (auto simp: isSkipped_def skipNames_eq)

lemma strIndex_split:
  "strIndex c s = Some i \<Longrightarrow> s = take i s @ c # drop (Suc i) s"
proof (induction s arbitrary: i)
  case Nil
  then show ?case by simp
next
  case (Cons x xs)
  show ?case
  proof (cases "x = c")
    case True
    with Cons.prems show ?thesis by simp
  next
    case False
    with Cons.prems obtain j where j: "strIndex c xs = Some j" "i = Suc j" by auto
    from Cons.IH [OF j(1)] j(2) show ?thesis by simp
  qed
qed

lemma strIndex_None: "strIndex c s = None \<Longrightarrow> c \<notin> set s"
  by (induction s) (auto split: if_splits)

lemma sanitizeProperty_cases:
  "sanitizeProperty n = n \<or> (\<exists>rest. n = sanitizeProperty n @ ''['' @ rest)"
proof (cases "strIndex CHR ''['' n")
  case None
  then show ?thesis by (simp add: sanitizeProperty_def getArrayPrefix_def)
next
  case (Some i)
  from strIndex_split [OF Some] have "n = take i n @ ''['' @ drop (Suc i) n" by simp
  then have "\<exists>rest. n = take i n @ ''['' @ rest" by blast
  with Some show ?thesis by (simp add: sanitizeProperty_def getArrayPrefix_def)
qed

lemma isUnder_sanitize: "isUnder q n \<Longrightarrow> isUnder q (sanitizeProperty n)"
proof -
  assume u: "isUnder q n"
  from sanitizeProperty_cases [of n] show ?thesis
  proof
    assume "sanitizeProperty n = n"
    with u show ?thesis by simp
  next
    assume "\<exists>rest. n = sanitizeProperty n @ ''['' @ rest"
    then obtain rest where n: "n = sanitizeProperty n @ ''['' @ rest" ..
    have "prefix n q" using u by (auto simp: isUnder_def prefix_def)
    then have "prefix (sanitizeProperty n @ ''['') q"
      by (subst (asm) n) (auto simp: prefix_def)
    then show ?thesis by (simp add: isUnder_def)
  qed
qed

lemma realKeys_iff:
  "q \<in> set (realKeys real ms) \<longleftrightarrow>
     (\<exists>r\<in>set real. Name r = q \<and> \<not> Extra r) \<and> \<not> isSkipped (skipNames ms) q"
  by (auto simp: realKeys_def)

lemma metaKeys_iff:
  "q \<in> set (metaKeys ms) \<longleftrightarrow>
     (\<exists>d\<in>set ms. Name d = q \<and> \<not> Extra d) \<and> \<not> isSkipped (skipNames ms) q"
  by (auto simp: metaKeys_def)

lemma missing_iff: "q \<in> set (missing real ms) \<longleftrightarrow> q \<in> set (realKeys real ms) \<and> q \<notin> set (metaKeys ms)"
  by (auto simp: missing_def difference_def)

lemma orphan_iff: "q \<in> set (orphan real ms) \<longleftrightarrow> q \<in> set (metaKeys ms) \<and> q \<notin> set (realKeys real ms)"
  by (auto simp: orphan_def difference_def)

lemma skipped_not_reported:
  "isSkipped (skipNames ms) q \<Longrightarrow> q \<notin> set (missing real ms) \<and> q \<notin> set (orphan real ms)"
  by (simp add: missing_iff orphan_iff realKeys_iff metaKeys_iff)

text \<open>
  Claim C4, amended. The skip names are the names of the declarations that are Skip or
  carry at least one modifier, each cut at its first \<open>[\<close> (\<open>sanitizeProperty\<close>). A
  path \<open>q\<close> is under a skip name \<open>s\<close> iff \<open>q = s\<close>, or \<open>q\<close> starts with \<open>s\<close> followed by
  \<open>.\<close>, or \<open>q\<close> starts with \<open>s\<close> followed by \<open>[\<close>. The path of a real entry (not Extra)
  is in the real-key set, and the path of a declaration that is not Extra is in the
  declared-key set, iff it is under no skip name. Hence a Skip declaration for \<open>p\<close>
  removes \<open>p\<close> and every path that starts with \<open>p.\<close> or \<open>p[\<close> from both key sets, and so
  from the missing and the orphan reports, at any depth.
\<close>

theorem skip_subtree_removal:
  "(isUnder q s \<longleftrightarrow> q = s \<or> prefix (s @ ''.'') q \<or> prefix (s @ ''['') q)
   \<and> (isSkipped (skipNames ms) q \<longleftrightarrow>
        (\<exists>d\<in>set ms. (Skip d \<or> Modifiers d \<noteq> []) \<and> isUnder q (sanitizeProperty (Name d))))
   \<and> (q \<in> set (realKeys real ms) \<longleftrightarrow>
        (\<exists>r\<in>set real. Name r = q \<and> \<not> Extra r) \<and> \<not> isSkipped (skipNames ms) q)
   \<and> (q \<in> set (metaKeys ms) \<longleftrightarrow>
        (\<exists>d\<in>set ms. Name d = q \<and> \<not> Extra d) \<and> \<not> isSkipped (skipNames ms) q)
   \<and> (\<forall>d\<in>set ms. Skip d \<and> isUnder q (Name d) \<longrightarrow>
        q \<notin> set (realKeys real ms) \<and> q \<notin> set (metaKeys ms) \<and>
        q \<notin> set (missing real ms) \<and> q \<notin> set (orphan real ms))"
proof -
  have "\<forall>d\<in>set ms. Skip d \<and> isUnder q (Name d) \<longrightarrow>
        q \<notin> set (realKeys real ms) \<and> q \<notin> set (metaKeys ms) \<and>
        q \<notin> set (missing real ms) \<and> q \<notin> set (orphan real ms)"
  proof (intro ballI impI)
    fix d assume d: "d \<in> set ms" "Skip d \<and> isUnder q (Name d)"
    then have "isUnder q (sanitizeProperty (Name d))" by (simp add: isUnder_sanitize)
    with d have s: "isSkipped (skipNames ms) q" by (auto simp: isSkipped_iff)
    with skipped_not_reported [OF s, of real]
    show "q \<notin> set (realKeys real ms) \<and> q \<notin> set (metaKeys ms) \<and>
        q \<notin> set (missing real ms) \<and> q \<notin> set (orphan real ms)"
      by (simp add: realKeys_iff metaKeys_iff)
  qed
  then show ?thesis
    using isSkipped_iff [of ms q] realKeys_iff [of q real ms] metaKeys_iff [of q ms]
    by (simp add: isUnder_def)
qed

lemma dbvals: "map Name (valuesOfTree dbTree) = [''db.host'', ''db.port'']"
  by (simp add: valuesOfTree_def dbTree_def valueParameter_def NewParameter_def)

text \<open>
  Witness for claim C4 (amended): with the declaration \<open>@skip db\<close> and the tree
  \<open>{db: {host: "h", port: 1}}\<close>, the real path \<open>db.host\<close> is in neither key set and in
  neither report.
\<close>

theorem skip_subtree_removal_witness:
  "Skip (SetSkip (NewParameter ''db'') True) \<and> isUnder ''db.host'' ''db''
   \<and> ''db.host'' \<notin> set (realKeys (valuesOfTree dbTree) [SetSkip (NewParameter ''db'') True])
   \<and> ''db.host'' \<notin> set (metaKeys [SetSkip (NewParameter ''db'') True])
   \<and> ''db.host'' \<notin> set (missing (valuesOfTree dbTree) [SetSkip (NewParameter ''db'') True])
   \<and> ''db.host'' \<notin> set (orphan (valuesOfTree dbTree) [SetSkip (NewParameter ''db'') True])"
proof -
  have a: "Skip (SetSkip (NewParameter ''db'') True) \<and> isUnder ''db.host'' ''db''"
    by (simp add: Skip_def SetSkip_def NewParameter_def isUnder_def)
  then have b: "Skip (SetSkip (NewParameter ''db'') True) \<and>
       isUnder ''db.host'' (Name (SetSkip (NewParameter ''db'') True))"
    by (simp add: SetSkip_def NewParameter_def)
  from skip_subtree_removal [of "''db.host''" "''db''" "[SetSkip (NewParameter ''db'') True]"
      "valuesOfTree dbTree"]
  have "\<forall>d\<in>set [SetSkip (NewParameter ''db'') True]. Skip d \<and> isUnder ''db.host'' (Name d) \<longrightarrow>
        ''db.host'' \<notin> set (realKeys (valuesOfTree dbTree) [SetSkip (NewParameter ''db'') True]) \<and>
        ''db.host'' \<notin> set (metaKeys [SetSkip (NewParameter ''db'') True]) \<and>
        ''db.host'' \<notin> set (missing (valuesOfTree dbTree) [SetSkip (NewParameter ''db'') True]) \<and>
        ''db.host'' \<notin> set (orphan (valuesOfTree dbTree) [SetSkip (NewParameter ''db'') True])"
    by blast
  with a b show ?thesis by simp
qed

text \<open>
  Claim C4, as stated, fails: with the one declaration \<open>@skip a[0]\<close> and the real paths
  \<open>a[0]\<close> and \<open>a[1]\<close>, the path \<open>a[1]\<close> is not equal to the declared name \<open>a[0]\<close> and
  starts with neither \<open>a[0].\<close> nor \<open>a[0][\<close>, yet it is removed from the real-key set
  (the skip name is \<open>a\<close>), and nothing is reported missing.
\<close>

theorem skip_name_cut_counterexample:
  "Skip (SetSkip (NewParameter ''a[0]'') True)
   \<and> \<not> isUnder ''a[1]'' ''a[0]''
   \<and> realKeys [valueParameter (''a[0]'', VInt 1), valueParameter (''a[1]'', VInt 2)]
        [SetSkip (NewParameter ''a[0]'') True] = []
   \<and> missing [valueParameter (''a[0]'', VInt 1), valueParameter (''a[1]'', VInt 2)]
        [SetSkip (NewParameter ''a[0]'') True] = []"
  by (simp add: Skip_def SetSkip_def NewParameter_def isUnder_def realKeys_def missing_def
      difference_def skipNames_def isSkipped_def valueParameter_def sanitizeProperty_def
      getArrayPrefix_def Extra_def)

section \<open>Extra-role parameters\<close>

lemma tableRows_nth:
  "i < length params \<Longrightarrow>
   tableRows marshal params ! Suc i =
     [[CHR 0x60] @ Name (params ! i) @ [CHR 0x60], Description (params ! i),
      valueCell marshal (params ! i)]"
  by (simp add: tableRows_def)

text \<open>
  Claim C7, amended. For every Extra-role declared parameter (paths being unique within
  the metadata), its path is excluded from the declared-key set and never appears in the
  orphan list; it is not excluded from the real-key set, and its path appears in the
  missing list exactly when a real entry (not Extra) has the same path and no skip name
  covers it; in the table its value cell is always empty.
\<close>

theorem extra_validation_and_value_cell:
  assumes "p \<in> set ms" and "Extra p" and "distinct (map Name ms)"
  shows "Name p \<notin> set (metaKeys ms)
     \<and> Name p \<notin> set (orphan real ms)
     \<and> (Name p \<in> set (missing real ms) \<longleftrightarrow>
          (\<exists>r\<in>set real. Name r = Name p \<and> \<not> Extra r) \<and> \<not> isSkipped (skipNames ms) (Name p))
     \<and> valueCell marshal p = []
     \<and> (\<forall>i<length params. params ! i = p \<longrightarrow> tableRows marshal params ! Suc i ! 2 = [])"
proof -
  have inj: "inj_on Name (set ms)" using assms(3) by (simp add: distinct_map)
  have "\<And>d. d \<in> set ms \<Longrightarrow> Name d = Name p \<Longrightarrow> Extra d"
  proof -
    fix d assume "d \<in> set ms" "Name d = Name p"
    with inj assms(1) have "d = p" by (auto dest: inj_onD)
    with assms(2) show "Extra d" by simp
  qed
  then have m: "Name p \<notin> set (metaKeys ms)" by (auto simp: metaKeys_iff)
  have v: "valueCell marshal p = []" using assms(2) by (simp add: valueCell_def)
  have t: "\<forall>i<length params. params ! i = p \<longrightarrow> tableRows marshal params ! Suc i ! 2 = []"
    using v by (auto simp: tableRows_nth)
  from m v t show ?thesis
    by (simp add: orphan_iff missing_iff realKeys_iff)
qed

text \<open>
  Witness for claim C7 (amended): the declarations \<open>@extra a An object\<close> and
  \<open>@param a.b\<close> with the real entry \<open>a.b\<close>: the path \<open>a\<close> is in neither report and its
  value cell is empty.
\<close>

theorem extra_validation_and_value_cell_witness:
  "Name (SetExtra ((NewParameter ''a'')\<lparr>Description := ''An object'', Value := VString []\<rparr>) True)
      \<notin> set (orphan [valueParameter (''a.b'', VInt 1)]
           [SetExtra ((NewParameter ''a'')\<lparr>Description := ''An object'', Value := VString []\<rparr>) True,
            NewParameter ''a.b''])
   \<and> Name (SetExtra ((NewParameter ''a'')\<lparr>Description := ''An object'', Value := VString []\<rparr>) True)
      \<notin> set (missing [valueParameter (''a.b'', VInt 1)]
           [SetExtra ((NewParameter ''a'')\<lparr>Description := ''An object'', Value := VString []\<rparr>) True,
            NewParameter ''a.b''])
   \<and> valueCell (\<lambda>v. ''null'')
        (SetExtra ((NewParameter ''a'')\<lparr>Description := ''An object'', Value := VString []\<rparr>) True) = []"
proof -
  let ?p = "SetExtra ((NewParameter ''a'')\<lparr>Description := ''An object'', Value := VString []\<rparr>) True"
  let ?ms = "[?p, NewParameter ''a.b'']"
  let ?real = "[valueParameter (''a.b'', VInt 1)]"
  have 1: "?p \<in> set ?ms" by simp
  have 2: "Extra ?p" by (simp add: Extra_def SetExtra_def)
  have 3: "distinct (map Name ?ms)" by (simp add: SetExtra_def NewParameter_def)
  have 4: "\<not> (\<exists>r\<in>set ?real. Name r = Name ?p \<and> \<not> Extra r)"
    by (simp add: valueParameter_def SetExtra_def NewParameter_def)
  from extra_validation_and_value_cell [OF 1 2 3, of ?real "\<lambda>v. ''null''" "[]"] 4
  show ?thesis by simp
qed

text \<open>
  Claim C7, as stated, fails: with the real entry \<open>a\<close> (the tree \<open>{a: 1}\<close>) and the one
  declaration \<open>@extra a A key\<close>, the path \<open>a\<close> of the Extra-role parameter stays in the
  real-key set and is reported missing.
\<close>

theorem extra_path_missing_counterexample:
  "Extra (SetExtra ((NewParameter ''a'')\<lparr>Description := ''A key'', Value := VString []\<rparr>) True)
   \<and> Name (SetExtra ((NewParameter ''a'')\<lparr>Description := ''A key'', Value := VString []\<rparr>) True) = ''a''
   \<and> realKeys [valueParameter (''a'', VInt 1)]
        [SetExtra ((NewParameter ''a'')\<lparr>Description := ''A key'', Value := VString []\<rparr>) True] = [''a'']
   \<and> missing [valueParameter (''a'', VInt 1)]
        [SetExtra ((NewParameter ''a'')\<lparr>Description := ''A key'', Value := VString []\<rparr>) True] = [''a'']"
  by (simp add: Extra_def SetExtra_def NewParameter_def valueParameter_def missing_def
      realKeys_def metaKeys_def difference_def skipNames_def isSkipped_def Skip_def)

section \<open>Column widths of the Markdown table\<close>



























end
